theory Spec2Isabelle
  imports Main "HOL-Library.Sublist"
begin

section \<open>Python library functions that ciftify\_vol\_result relies on\<close>

text \<open>
  \<^verbatim>\<open>str.startswith\<close> and \<^verbatim>\<open>str.endswith\<close> on byte strings. A string that is
  shorter than the affix never matches, the empty affix always does.
\<close>

definition startswith :: "string \<Rightarrow> string \<Rightarrow> bool" where
  "startswith s pre = (take (length pre) s = pre)"

definition endswith :: "string \<Rightarrow> string \<Rightarrow> bool" where
  "endswith s suf = (take (length suf) (rev s) = rev suf)"

text \<open>
  The values that docopt stores for an option with an argument are \<^verbatim>\<open>None\<close> or a
  string. \<^verbatim>\<open>if x:\<close> is false for \<^verbatim>\<open>None\<close> and for the empty string; \<^verbatim>\<open>str(x)\<close> of a
  string is the string itself.
\<close>

definition truthy :: "string option \<Rightarrow> bool" where
  "truthy x = (case x of None \<Rightarrow> False | Some v \<Rightarrow> v \<noteq> [])"

definition str_of :: "string option \<Rightarrow> string" where
  "str_of x = (case x of None \<Rightarrow> ''None'' | Some v \<Rightarrow> v)"

text \<open>
  \<^verbatim>\<open>posixpath.join(a, *p)\<close>: a component that starts with a slash discards everything
  before it; otherwise one slash is put between two components unless the left one is
  empty or already ends with a slash.
\<close>

definition join_step :: "string \<Rightarrow> string \<Rightarrow> string" where
  "join_step path b =
     (if startswith b ''/'' then b
      else if path = [] \<or> endswith path ''/'' then path @ b
      else path @ ''/'' @ b)"

definition os_path_join :: "string \<Rightarrow> string list \<Rightarrow> string" where
  "os_path_join a p = foldl join_step a p"

text \<open>
  \<^verbatim>\<open>posixpath.dirname(p)\<close>: the text up to and including the last slash, with the
  trailing slashes removed unless it consists of slashes only.
\<close>

definition os_path_dirname :: "string \<Rightarrow> string" where
  "os_path_dirname p =
     (let head = rev (dropWhile (\<lambda>c. c \<noteq> CHR ''/'') (rev p))
      in if head \<noteq> [] \<and> \<not> list_all (\<lambda>c. c = CHR ''/'') head
         then rev (dropWhile (\<lambda>c. c = CHR ''/'') (rev head))
         else head)"

section \<open>The surroundings of one invocation\<close>

text \<open>
  Everything the program reads from outside its own source: the file system
  (\<^verbatim>\<open>os.path.realpath\<close>, \<^verbatim>\<open>os.access(_, os.W_OK)\<close>, \<^verbatim>\<open>os.path.exists\<close>,
  \<^verbatim>\<open>os.path.isfile\<close>), the voxel spacing that \<^verbatim>\<open>ciftify.niio.voxel_spacing\<close> reads from
  a volume (kept abstract as \<open>'sp\<close>; only compared for equality), the three lookups of
  \<^verbatim>\<open>ciftify.config\<close>, the path that \<^verbatim>\<open>ciftify.utils.TempDir\<close> yields and the exit status
  of the external tool for a given argument list.
\<close>

record 'sp env =
  realpath :: "string \<Rightarrow> string"
  access_W_OK :: "string \<Rightarrow> bool"
  path_exists :: "string \<Rightarrow> bool"
  isfile :: "string \<Rightarrow> bool"
  voxel_spacing :: "string \<Rightarrow> 'sp"
  find_HCP_S1200_GroupAvg :: string
  find_ciftify_global :: string
  find_fsl :: string
  tempdir :: string
  wb_returncode :: "string list \<Rightarrow> int"

text \<open>
  The dictionary that docopt builds from the usage text, restricted to the keys that the
  program reads: \<^verbatim>\<open><subject>\<close>, \<^verbatim>\<open><vol.nii.gz>\<close>, \<^verbatim>\<open><output.dscalar.nii>\<close>,
  \<^verbatim>\<open>--integer-labels\<close>, \<^verbatim>\<open>--surface-vol\<close>, \<^verbatim>\<open>--subcortical-vol\<close>, \<^verbatim>\<open>--dilate\<close>,
  \<^verbatim>\<open>--HCP-MSMAll\<close> and \<^verbatim>\<open>--resample-nifti\<close>. Positional arguments are strings, flags
  are booleans, options with an argument are \<^verbatim>\<open>None\<close> or a string.
\<close>

record arguments =
  arg_subject :: string
  arg_vol :: string
  arg_output :: string
  arg_integer_labels :: bool
  arg_surface_vol :: "string option"
  arg_subcortical_vol :: "string option"
  arg_dilate :: "string option"
  arg_HCP_MSMAll :: bool
  arg_resample_nifti :: bool

text \<open>\<^verbatim>\<open>sys.exit(n)\<close> ends the process with status \<open>n\<close>.\<close>

datatype error = SystemExit int

text \<open>
  The attributes of a \<^verbatim>\<open>UserSettings\<close> object. \<open>work_dir\<close> is set by the base class
  \<^verbatim>\<open>WorkDirSettings\<close>, whose constructor is not among the sources at hand: the
  directory it settles on is a parameter of the model. The attribute
  \<^verbatim>\<open>use_ciftify_global\<close> shadows the method of the same name; here it is the field
  \<open>use_ciftify_global_flag\<close>.
\<close>

record settings =
  work_dir :: string
  integer_labels :: bool
  resample :: bool
  dilate_mm :: "string option"
  outputname :: string
  use_ciftify_global_flag :: bool
  subject :: string
  surf_dir :: string
  surf_mesh :: string
  atlas_vol :: string
  surf_roi_L :: string
  surf_roi_R :: string
  surface_nii :: string
  subcortical_nii :: string

section \<open>UserSettings\<close>

definition get_output_filename :: "'sp env \<Rightarrow> string \<Rightarrow> error + string" where
  "get_output_filename env user_outputname =
     (let outputname = realpath env user_outputname;
          output_dir = os_path_dirname outputname
      in if \<not> access_W_OK env output_dir then Inl (SystemExit 1)
         else if \<not> endswith outputname ''dscalar.nii''
                 \<and> \<not> endswith outputname ''dtseries.nii''
              then Inr (outputname @ ''.dscalar.nii'')
              else Inr outputname)"

definition use_ciftify_global :: "string \<Rightarrow> bool" where
  "use_ciftify_global hcp_subject = (if hcp_subject = ''HCP_S1200_GroupAvg'' then True else False)"

definition get_subject :: "string \<Rightarrow> string" where
  "get_subject subj = (if subj = ''HCP_S1200_GroupAvg'' then ''S1200'' else subj)"

definition get_surf_dir :: "'sp env \<Rightarrow> string \<Rightarrow> bool \<Rightarrow> string \<Rightarrow> string" where
  "get_surf_dir env wd use_global subj =
     (if use_global then find_HCP_S1200_GroupAvg env
      else os_path_join wd [subj, ''MNINonLinear'', ''fsaverage_LR32k''])"

definition get_surface_mesh :: "bool \<Rightarrow> bool \<Rightarrow> string" where
  "get_surface_mesh use_global use_MSMall =
     (if use_global then ''_MSMAll.32k_fs_LR''
      else if use_MSMall then ''_MSMAll.32k_fs_LR''
      else ''.32k_fs_LR'')"

text \<open>The path that \<^verbatim>\<open>get_atlas_vol\<close> computes before it tests for its existence.\<close>

definition atlas_vol_path :: "'sp env \<Rightarrow> string \<Rightarrow> bool \<Rightarrow> string \<Rightarrow> string" where
  "atlas_vol_path env wd use_global subj =
     (if use_global
      then os_path_join (find_ciftify_global env) [''91282_Greyordinates'', ''Atlas_ROIs.2.nii.gz'']
      else os_path_join wd [subj, ''MNINonLinear'', ''ROIs'', ''Atlas_ROIs.2.nii.gz''])"

definition get_atlas_vol :: "'sp env \<Rightarrow> string \<Rightarrow> bool \<Rightarrow> string \<Rightarrow> error + string" where
  "get_atlas_vol env wd use_global subj =
     (let atlas = atlas_vol_path env wd use_global subj
      in if \<not> path_exists env atlas then Inl (SystemExit 1) else Inr atlas)"

text \<open>The path that \<^verbatim>\<open>get_surf_roi\<close> computes before it tests for its existence.\<close>

definition surf_roi_path :: "'sp env \<Rightarrow> bool \<Rightarrow> string \<Rightarrow> string \<Rightarrow> string \<Rightarrow> string" where
  "surf_roi_path env use_global sdir subj hemi =
     (if use_global
      then os_path_join (find_ciftify_global env)
             [''91282_Greyordinates'', hemi @ ''.atlasroi.32k_fs_LR.shape.gii'']
      else os_path_join sdir [subj @ ''.'' @ hemi @ ''.atlasroi.32k_fs_LR.shape.gii''])"

definition get_surf_roi :: "'sp env \<Rightarrow> bool \<Rightarrow> string \<Rightarrow> string \<Rightarrow> string \<Rightarrow> error + string" where
  "get_surf_roi env use_global sdir subj hemi =
     (let surf_roi = surf_roi_path env use_global sdir subj hemi
      in if \<not> path_exists env surf_roi then Inl (SystemExit 1) else Inr surf_roi)"

text \<open>
  The volume that \<^verbatim>\<open>get_surface_nii\<close> and \<^verbatim>\<open>get_subcortical_nii\<close> settle on: the
  separate volume when one was given, \<^verbatim>\<open><vol.nii.gz>\<close> otherwise.
\<close>

definition volume_or_default :: "string option \<Rightarrow> arguments \<Rightarrow> string" where
  "volume_or_default opt args = (if \<not> truthy opt then arg_vol args else str_of opt)"

definition get_surface_nii :: "'sp env \<Rightarrow> arguments \<Rightarrow> error + string" where
  "get_surface_nii env args =
     (let nii = volume_or_default (arg_surface_vol args) args
      in if \<not> isfile env nii then Inl (SystemExit 1)
         else if nii = [] then Inl (SystemExit 1)
         else Inr nii)"

definition get_subcortical_nii :: "'sp env \<Rightarrow> bool \<Rightarrow> string \<Rightarrow> arguments \<Rightarrow> error + string" where
  "get_subcortical_nii env resample_flag atlas args =
     (let nii = volume_or_default (arg_subcortical_vol args) args
      in if \<not> isfile env nii then Inl (SystemExit 1)
         else if \<not> resample_flag \<and> voxel_spacing env nii \<noteq> voxel_spacing env atlas
              then Inl (SystemExit 1)
         else Inr nii)"

text \<open>
  \<^verbatim>\<open>UserSettings.__init__\<close>: the attributes are computed in the order of the source and
  the first \<^verbatim>\<open>sys.exit\<close> ends the construction.
\<close>

definition UserSettings :: "'sp env \<Rightarrow> string \<Rightarrow> arguments \<Rightarrow> error + settings" where
  "UserSettings env wd args =
     (case get_output_filename env (arg_output args) of
        Inl e \<Rightarrow> Inl e
      | Inr out \<Rightarrow>
          let use_global = use_ciftify_global (arg_subject args);
              subj = get_subject (arg_subject args);
              sdir = get_surf_dir env wd use_global subj;
              mesh = get_surface_mesh use_global (arg_HCP_MSMAll args)
          in case get_atlas_vol env wd use_global subj of
               Inl e \<Rightarrow> Inl e
             | Inr atlas \<Rightarrow>
          (case get_surf_roi env use_global sdir subj ''L'' of
               Inl e \<Rightarrow> Inl e
             | Inr roi_L \<Rightarrow>
          (case get_surf_roi env use_global sdir subj ''R'' of
               Inl e \<Rightarrow> Inl e
             | Inr roi_R \<Rightarrow>
          (case get_surface_nii env args of
               Inl e \<Rightarrow> Inl e
             | Inr s_nii \<Rightarrow>
          (case get_subcortical_nii env (arg_resample_nifti args) atlas args of
               Inl e \<Rightarrow> Inl e
             | Inr sc_nii \<Rightarrow>
                 Inr \<lparr>work_dir = wd,
                      integer_labels = arg_integer_labels args,
                      resample = arg_resample_nifti args,
                      dilate_mm = arg_dilate args,
                      outputname = out,
                      use_ciftify_global_flag = use_global,
                      subject = subj,
                      surf_dir = sdir,
                      surf_mesh = mesh,
                      atlas_vol = atlas,
                      surf_roi_L = roi_L,
                      surf_roi_R = roi_R,
                      surface_nii = s_nii,
                      subcortical_nii = sc_nii\<rparr>)))))"

section \<open>run\_ciftify\_vol\_result\<close>

text \<open>
  The state of the running process: the argument lists handed to the external tool so
  far, and the exit status once the process has ended.
\<close>

record proc =
  trace :: "string list list"
  exited :: "int option"

definition start :: proc where
  "start = \<lparr>trace = [], exited = None\<rparr>"

text \<open>
  Modelled from the spec: \<^verbatim>\<open>ciftify.utils.run\<close> is imported but its body is not among
  the sources at hand. The specification says that the sequencer ``fails the process on
  any non-zero exit'', that ``any external command failure aborts the whole sequence (no
  partial retry)'' and that the exit code is ``1 on any validation or external-command
  failure''. So \<open>run\<close> starts the tool with the given argument list and, when the tool
  ends with a non-zero status, ends the process with status 1. In a process that has
  already ended nothing runs.
\<close>

definition run :: "'sp env \<Rightarrow> string list \<Rightarrow> proc \<Rightarrow> proc" where
  "run env cmd p =
     (case exited p of
        Some c \<Rightarrow> p
      | None \<Rightarrow>
          if wb_returncode env cmd = 0
          then \<lparr>trace = trace p @ [cmd], exited = None\<rparr>
          else \<lparr>trace = trace p @ [cmd], exited = Some 1\<rparr>)"

text \<open>The three surface files of one hemisphere, named as the source formats them.\<close>

definition surf_file :: "settings \<Rightarrow> string \<Rightarrow> string \<Rightarrow> string" where
  "surf_file s hemi kind =
     os_path_join (surf_dir s)
       [subject s @ ''.'' @ hemi @ ''.'' @ kind @ surf_mesh s @ ''.surf.gii'']"

definition surf_mapping_cmd :: "settings \<Rightarrow> string \<Rightarrow> string \<Rightarrow> string list" where
  "surf_mapping_cmd s tmpdir hemi =
     [''wb_command'', ''-volume-to-surface-mapping'',
      surface_nii s,
      surf_file s hemi ''midthickness'',
      os_path_join tmpdir [hemi @ ''.func.gii'']]
     @ (if integer_labels s then [''-enclosing'']
        else [''-ribbon-constrained'', surf_file s hemi ''white'', surf_file s hemi ''pial''])"

definition resample_method :: "settings \<Rightarrow> string" where
  "resample_method s = (if integer_labels s then ''ENCLOSING_VOXEL'' else ''CUBIC'')"

definition rinput_subcortical :: "settings \<Rightarrow> string \<Rightarrow> string" where
  "rinput_subcortical s tmpdir =
     (if resample s then os_path_join tmpdir [''input_nii_r.nii.gz''] else subcortical_nii s)"

definition resample_cmd :: "'sp env \<Rightarrow> settings \<Rightarrow> string \<Rightarrow> string list" where
  "resample_cmd env s tmpdir =
     [''wb_command'', ''-volume-affine-resample'',
      subcortical_nii s,
      os_path_join (find_fsl env) [''etc'', ''flirtsch/ident.mat''],
      atlas_vol s,
      resample_method s,
      os_path_join tmpdir [''input_nii_r.nii.gz'']]"

definition dense_out :: "settings \<Rightarrow> string \<Rightarrow> string" where
  "dense_out s tmpdir =
     (if truthy (dilate_mm s)
      then (if endswith (outputname s) ''dtseries.nii''
            then os_path_join tmpdir [''dense1.dtseries.nii'']
            else os_path_join tmpdir [''dense1.dscalar.nii''])
      else outputname s)"

definition wb_subcommand :: "settings \<Rightarrow> string" where
  "wb_subcommand s =
     (if endswith (outputname s) ''dtseries.nii''
      then ''-cifti-create-dense-timeseries''
      else ''-cifti-create-dense-scalar'')"

definition dense_cmd :: "settings \<Rightarrow> string \<Rightarrow> string list" where
  "dense_cmd s tmpdir =
     [''wb_command'', wb_subcommand s,
      dense_out s tmpdir,
      ''-volume'', rinput_subcortical s tmpdir, atlas_vol s,
      ''-left-metric'', os_path_join tmpdir [''L.func.gii''],
      ''-roi-left'', surf_roi_L s,
      ''-right-metric'', os_path_join tmpdir [''R.func.gii''],
      ''-roi-right'', surf_roi_R s]"

definition dilate_cmd :: "settings \<Rightarrow> string \<Rightarrow> string list" where
  "dilate_cmd s tmpdir =
     [''wb_command'', ''-cifti-dilate'',
      dense_out s tmpdir, ''COLUMN'',
      str_of (dilate_mm s), str_of (dilate_mm s),
      outputname s,
      ''-left-surface'', surf_file s ''L'' ''midthickness'',
      ''-right-surface'', surf_file s ''R'' ''midthickness'']
     @ (if integer_labels s then [''-nearest''] else [])"

text \<open>
  The body of \<^verbatim>\<open>run_ciftify_vol_result\<close>, statement by statement: the loop over the two
  hemispheres, the optional resampling, the dense file, the optional dilation. The
  results of the calls of \<^verbatim>\<open>run\<close> are dropped, as in the source.
\<close>

definition run_ciftify_vol_result :: "'sp env \<Rightarrow> settings \<Rightarrow> string \<Rightarrow> proc" where
  "run_ciftify_vol_result env s tmpdir =
     (let p1 = fold (\<lambda>hemi. run env (surf_mapping_cmd s tmpdir hemi)) [''L'', ''R''] start;
          p2 = (if resample s then run env (resample_cmd env s tmpdir) p1 else p1);
          p3 = run env (dense_cmd s tmpdir) p2;
          p4 = (if truthy (dilate_mm s) then run env (dilate_cmd s tmpdir) p3 else p3)
      in p4)"

section \<open>main\<close>

text \<open>
  \<^verbatim>\<open>sys.exit(ret)\<close> with the value that \<^verbatim>\<open>run_ciftify_vol_result\<close> returns. The function
  has no \<^verbatim>\<open>return\<close> statement, so \<open>ret\<close> is \<^verbatim>\<open>None\<close>, and \<^verbatim>\<open>sys.exit(None)\<close> is
  status 0.
\<close>

definition sys_exit_status :: "int option \<Rightarrow> int" where
  "sys_exit_status ret = (case ret of None \<Rightarrow> 0 | Some n \<Rightarrow> n)"

definition main :: "'sp env \<Rightarrow> string \<Rightarrow> arguments \<Rightarrow> int \<times> string list list" where
  "main env wd args =
     (case UserSettings env wd args of
        Inl (SystemExit c) \<Rightarrow> (c, [])
      | Inr s \<Rightarrow>
          (let p = run_ciftify_vol_result env s (tempdir env)
           in case exited p of
                Some c \<Rightarrow> (c, trace p)
              | None \<Rightarrow> (sys_exit_status None, trace p)))"

section \<open>Derived notions used in the statements\<close>

text \<open>
  The argument lists of the calls of \<^verbatim>\<open>run\<close> in \<^verbatim>\<open>run_ciftify_vol_result\<close>, in
  program order, and the part of a list of commands that is started when the first
  failing one ends the process.
\<close>

definition command_sequence :: "'sp env \<Rightarrow> settings \<Rightarrow> string \<Rightarrow> string list list" where
  "command_sequence env s tmpdir =
     map (surf_mapping_cmd s tmpdir) [''L'', ''R'']
     @ (if resample s then [resample_cmd env s tmpdir] else [])
     @ [dense_cmd s tmpdir]
     @ (if truthy (dilate_mm s) then [dilate_cmd s tmpdir] else [])"

fun until_failure :: "('a \<Rightarrow> bool) \<Rightarrow> 'a list \<Rightarrow> 'a list" where
  "until_failure ok [] = []"
| "until_failure ok (c # cs) = (if ok c then c # until_failure ok cs else [c])"

section \<open>A concrete invocation\<close>

text \<open>
  A subject directory \<^verbatim>\<open>/work/sub01\<close> and the global atlas directory \<^verbatim>\<open>/global\<close>, both
  with atlas volume and ROI masks but without surface meshes; two input volumes, one of
  them with 3 mm voxels; a tool that always succeeds.
\<close>

definition example_env :: "(nat \<times> nat \<times> nat) env" where
  "example_env =
     \<lparr>realpath = (\<lambda>p. p),
      access_W_OK = (\<lambda>d. d = ''/out''),
      path_exists = (\<lambda>p. List.member
         [''/work/sub01/MNINonLinear/ROIs/Atlas_ROIs.2.nii.gz'',
          ''/work/sub01/MNINonLinear/fsaverage_LR32k/sub01.L.atlasroi.32k_fs_LR.shape.gii'',
          ''/work/sub01/MNINonLinear/fsaverage_LR32k/sub01.R.atlasroi.32k_fs_LR.shape.gii'',
          ''/global/91282_Greyordinates/Atlas_ROIs.2.nii.gz'',
          ''/global/91282_Greyordinates/L.atlasroi.32k_fs_LR.shape.gii'',
          ''/global/91282_Greyordinates/R.atlasroi.32k_fs_LR.shape.gii''] p),
      isfile = (\<lambda>p. p = ''/in/vol.nii.gz'' \<or> p = ''/in/vol3mm.nii.gz''),
      voxel_spacing = (\<lambda>p. if p = ''/in/vol3mm.nii.gz'' then (3, 3, 3) else (2, 2, 2)),
      find_HCP_S1200_GroupAvg = ''/global/HCP_S1200_GroupAvg_v1'',
      find_ciftify_global = ''/global'',
      find_fsl = ''/fsl'',
      tempdir = ''/tmp/t'',
      wb_returncode = (\<lambda>c. 0)\<rparr>"

definition example_args :: arguments where
  "example_args =
     \<lparr>arg_subject = ''sub01'', arg_vol = ''/in/vol.nii.gz'', arg_output = ''/out/map'',
      arg_integer_labels = False, arg_surface_vol = None, arg_subcortical_vol = None,
      arg_dilate = None, arg_HCP_MSMAll = False, arg_resample_nifti = False\<rparr>"

text \<open>
  The settings that \<^verbatim>\<open>UserSettings\<close> builds for the subject \<^verbatim>\<open>sub01\<close> and for the
  subject \<^verbatim>\<open>HCP_S1200_GroupAvg\<close>, a variant with integer labels, resampling and a
  dilation of 4 mm, a variant with the dilation alone, and surroundings in which the
  dense-scalar creation fails.
\<close>

definition example_settings :: settings where
  "example_settings =
     \<lparr>work_dir = ''/work'', integer_labels = False, resample = False, dilate_mm = None,
      outputname = ''/out/map.dscalar.nii'', use_ciftify_global_flag = False,
      subject = ''sub01'', surf_dir = ''/work/sub01/MNINonLinear/fsaverage_LR32k'',
      surf_mesh = ''.32k_fs_LR'',
      atlas_vol = ''/work/sub01/MNINonLinear/ROIs/Atlas_ROIs.2.nii.gz'',
      surf_roi_L = ''/work/sub01/MNINonLinear/fsaverage_LR32k/sub01.L.atlasroi.32k_fs_LR.shape.gii'',
      surf_roi_R = ''/work/sub01/MNINonLinear/fsaverage_LR32k/sub01.R.atlasroi.32k_fs_LR.shape.gii'',
      surface_nii = ''/in/vol.nii.gz'', subcortical_nii = ''/in/vol.nii.gz''\<rparr>"

definition example_group_settings :: settings where
  "example_group_settings =
     \<lparr>work_dir = ''/work'', integer_labels = False, resample = False, dilate_mm = None,
      outputname = ''/out/map.dscalar.nii'', use_ciftify_global_flag = True,
      subject = ''S1200'', surf_dir = ''/global/HCP_S1200_GroupAvg_v1'',
      surf_mesh = ''_MSMAll.32k_fs_LR'',
      atlas_vol = ''/global/91282_Greyordinates/Atlas_ROIs.2.nii.gz'',
      surf_roi_L = ''/global/91282_Greyordinates/L.atlasroi.32k_fs_LR.shape.gii'',
      surf_roi_R = ''/global/91282_Greyordinates/R.atlasroi.32k_fs_LR.shape.gii'',
      surface_nii = ''/in/vol.nii.gz'', subcortical_nii = ''/in/vol.nii.gz''\<rparr>"

definition example_labels_settings :: settings where
  "example_labels_settings =
     example_settings\<lparr>integer_labels := True, resample := True, dilate_mm := Some ''4''\<rparr>"

definition example_dilate_settings :: settings where
  "example_dilate_settings = example_settings\<lparr>dilate_mm := Some ''4''\<rparr>"

definition example_failing_env :: "(nat \<times> nat \<times> nat) env" where
  "example_failing_env =
     example_env\<lparr>wb_returncode :=
       (\<lambda>c. if c ! 1 = ''-cifti-create-dense-scalar'' then 2 else 0)\<rparr>"

section \<open>Auxiliary facts\<close>

lemma endswith_append: "endswith (s @ suf) suf"
  by (simp add: endswith_def)

lemma until_failure_set: "set (until_failure ok cs) \<subseteq> set cs"
  by (induction cs) auto

lemma until_failure_all: "list_all ok cs \<Longrightarrow> until_failure ok cs = cs"
  by (induction cs) auto

lemma until_failure_prefix: "prefix (until_failure ok cs) cs"
  by (induction cs) auto

lemma run_exited: "exited p = Some c \<Longrightarrow> run env cmd p = p"
  by (simp add: run_def)

lemma fold_run_exited: "exited p = Some c \<Longrightarrow> fold (run env) cs p = p"
  by (induction cs) (simp_all add: run_exited)

lemma fold_run_trace:
  "exited p = None \<Longrightarrow>
   trace (fold (run env) cs p) = trace p @ until_failure (\<lambda>c. wb_returncode env c = 0) cs"
proof (induction cs arbitrary: p)
  case Nil
  then show ?case by simp
next
  case (Cons c cs)
  show ?case
  proof (cases "wb_returncode env c = 0")
    case True
    then have "exited (run env c p) = None" "trace (run env c p) = trace p @ [c]"
      using Cons.prems by (simp_all add: run_def)
    with Cons.IH [of "run env c p"] True show ?thesis by simp
  next
    case False
    then have "exited (run env c p) = Some 1" "trace (run env c p) = trace p @ [c]"
      using Cons.prems by (simp_all add: run_def)
    with False show ?thesis by (simp add: fold_run_exited)
  qed
qed

lemma fold_run_status:
  "exited p = None \<Longrightarrow>
   exited (fold (run env) cs p) =
     (if list_all (\<lambda>c. wb_returncode env c = 0) cs then None else Some 1)"
proof (induction cs arbitrary: p)
  case Nil
  then show ?case by simp
next
  case (Cons c cs)
  show ?case
  proof (cases "wb_returncode env c = 0")
    case True
    then have "exited (run env c p) = None"
      using Cons.prems by (simp add: run_def)
    with Cons.IH [of "run env c p"] True show ?thesis by simp
  next
    case False
    then have "exited (run env c p) = Some 1"
      using Cons.prems by (simp add: run_def)
    with False show ?thesis by (simp add: fold_run_exited)
  qed
qed

lemma run_ciftify_vol_result_fold:
  "run_ciftify_vol_result env s tmpdir = fold (run env) (command_sequence env s tmpdir) start"
  by (simp add: run_ciftify_vol_result_def command_sequence_def)

lemma trace_run_ciftify_vol_result:
  "trace (run_ciftify_vol_result env s tmpdir) =
     until_failure (\<lambda>c. wb_returncode env c = 0) (command_sequence env s tmpdir)"
  by (simp add: run_ciftify_vol_result_fold fold_run_trace start_def)

lemma exited_run_ciftify_vol_result:
  "exited (run_ciftify_vol_result env s tmpdir) =
     (if list_all (\<lambda>c. wb_returncode env c = 0) (command_sequence env s tmpdir)
      then None else Some 1)"
  by (simp add: run_ciftify_vol_result_fold fold_run_status start_def)

lemma trace_subset:
  "set (trace (run_ciftify_vol_result env s tmpdir)) \<subseteq> set (command_sequence env s tmpdir)"
  by (simp add: trace_run_ciftify_vol_result until_failure_set)

lemma trace_prefix:
  "prefix (trace (run_ciftify_vol_result env s tmpdir)) (command_sequence env s tmpdir)"
  by (simp add: trace_run_ciftify_vol_result until_failure_prefix)

lemma trace_complete:
  "exited (run_ciftify_vol_result env s tmpdir) = None \<Longrightarrow>
   trace (run_ciftify_vol_result env s tmpdir) = command_sequence env s tmpdir"
  by (simp add: exited_run_ciftify_vol_result trace_run_ciftify_vol_result until_failure_all
      split: if_splits)

lemma issued_cases:
  assumes "c \<in> set (trace (run_ciftify_vol_result env s tmpdir))"
  shows "c = surf_mapping_cmd s tmpdir ''L'' \<or> c = surf_mapping_cmd s tmpdir ''R''
       \<or> (resample s \<and> c = resample_cmd env s tmpdir)
       \<or> c = dense_cmd s tmpdir
       \<or> (truthy (dilate_mm s) \<and> c = dilate_cmd s tmpdir)"
proof -
  from assms trace_subset have "c \<in> set (command_sequence env s tmpdir)" by blast
  then show ?thesis
    unfolding command_sequence_def by (simp split: if_splits) blast+
qed

lemma UserSettings_Inl: "UserSettings env wd args = Inl e \<Longrightarrow> e = SystemExit 1"
  by (auto simp: UserSettings_def Let_def get_output_filename_def get_atlas_vol_def
        get_surf_roi_def get_surface_nii_def get_subcortical_nii_def
      split: sum.splits if_splits)

lemma UserSettings_Inr:
  assumes "UserSettings env wd args = Inr s"
  shows "work_dir s = wd"
    and "integer_labels s = arg_integer_labels args"
    and "resample s = arg_resample_nifti args"
    and "dilate_mm s = arg_dilate args"
    and "get_output_filename env (arg_output args) = Inr (outputname s)"
    and "use_ciftify_global_flag s = use_ciftify_global (arg_subject args)"
    and "subject s = get_subject (arg_subject args)"
    and "surf_dir s = get_surf_dir env wd (use_ciftify_global (arg_subject args))
                        (get_subject (arg_subject args))"
    and "surf_mesh s = get_surface_mesh (use_ciftify_global (arg_subject args))
                         (arg_HCP_MSMAll args)"
    and "atlas_vol s = atlas_vol_path env wd (use_ciftify_global (arg_subject args))
                         (get_subject (arg_subject args))"
    and "surf_roi_L s = surf_roi_path env (use_ciftify_global (arg_subject args))
                          (surf_dir s) (subject s) ''L''"
    and "surf_roi_R s = surf_roi_path env (use_ciftify_global (arg_subject args))
                          (surf_dir s) (subject s) ''R''"
    and "surface_nii s = volume_or_default (arg_surface_vol args) args"
    and "subcortical_nii s = volume_or_default (arg_subcortical_vol args) args"
  using assms
  by (auto simp: UserSettings_def Let_def get_atlas_vol_def
        get_surf_roi_def get_surface_nii_def get_subcortical_nii_def
      split: sum.splits if_splits)

lemma UserSettings_Inr_checked:
  assumes "UserSettings env wd args = Inr s"
  shows "access_W_OK env (os_path_dirname (realpath env (arg_output args)))"
    and "path_exists env (atlas_vol s)"
    and "path_exists env (surf_roi_L s)"
    and "path_exists env (surf_roi_R s)"
    and "isfile env (surface_nii s)"
    and "surface_nii s \<noteq> []"
    and "isfile env (subcortical_nii s)"
    and "resample s \<or> voxel_spacing env (subcortical_nii s) = voxel_spacing env (atlas_vol s)"
  using assms
  by (auto simp: UserSettings_def Let_def get_output_filename_def get_atlas_vol_def
        get_surf_roi_def get_surface_nii_def get_subcortical_nii_def
      split: sum.splits if_splits)

lemma UserSettings_succeeds:
  assumes "access_W_OK env (os_path_dirname (realpath env (arg_output args)))"
    and "path_exists env (atlas_vol_path env wd (use_ciftify_global (arg_subject args))
                         (get_subject (arg_subject args)))"
    and "path_exists env (surf_roi_path env (use_ciftify_global (arg_subject args))
           (get_surf_dir env wd (use_ciftify_global (arg_subject args)) (get_subject (arg_subject args)))
           (get_subject (arg_subject args)) ''L'')"
    and "path_exists env (surf_roi_path env (use_ciftify_global (arg_subject args))
           (get_surf_dir env wd (use_ciftify_global (arg_subject args)) (get_subject (arg_subject args)))
           (get_subject (arg_subject args)) ''R'')"
    and "isfile env (volume_or_default (arg_surface_vol args) args)"
    and "volume_or_default (arg_surface_vol args) args \<noteq> []"
    and "isfile env (volume_or_default (arg_subcortical_vol args) args)"
    and "arg_resample_nifti args \<or>
         voxel_spacing env (volume_or_default (arg_subcortical_vol args) args)
         = voxel_spacing env (atlas_vol_path env wd (use_ciftify_global (arg_subject args))
                         (get_subject (arg_subject args)))"
  shows "\<exists>s. UserSettings env wd args = Inr s"
  using assms
  by (auto simp: UserSettings_def Let_def get_output_filename_def get_atlas_vol_def
        get_surf_roi_def get_surface_nii_def get_subcortical_nii_def)

lemma main_Inl: "UserSettings env wd args = Inl e \<Longrightarrow> main env wd args = (1, [])"
  by (frule UserSettings_Inl) (simp add: main_def)

lemma main_Inr:
  "UserSettings env wd args = Inr s \<Longrightarrow>
   main env wd args =
     (if list_all (\<lambda>c. wb_returncode env c = 0) (command_sequence env s (tempdir env))
      then 0 else 1,
      until_failure (\<lambda>c. wb_returncode env c = 0) (command_sequence env s (tempdir env)))"
  by (simp add: main_def Let_def exited_run_ciftify_vol_result trace_run_ciftify_vol_result
        sys_exit_status_def)

lemma example_UserSettings: "UserSettings example_env ''/work'' example_args = Inr example_settings"
  by code_simp

lemma example_group_UserSettings:
  "UserSettings example_env ''/work'' (example_args\<lparr>arg_subject := ''HCP_S1200_GroupAvg''\<rparr>)
   = Inr example_group_settings"
  by code_simp

lemma endswith_slash: "endswith s ''/'' = (s \<noteq> [] \<and> last s = CHR ''/'')"
  by (cases s rule: rev_cases) (simp_all add: endswith_def)

lemma startswith_slash: "startswith s ''/'' = (s \<noteq> [] \<and> hd s = CHR ''/'')"
  by (cases s) (simp_all add: startswith_def)

lemma endswith_dscalar: "endswith (p @ ''.dscalar.nii'') ''dscalar.nii''"
  by (simp add: endswith_def)

lemma get_output_filename_Inr:
  "get_output_filename env u = Inr out \<Longrightarrow>
   out = (if \<not> endswith (realpath env u) ''dscalar.nii'' \<and> \<not> endswith (realpath env u) ''dtseries.nii''
          then realpath env u @ ''.dscalar.nii'' else realpath env u)"
  by (simp add: get_output_filename_def Let_def split: if_splits)

lemma surf_mapping_cmd_nth1: "surf_mapping_cmd s tmpdir hemi ! Suc 0 = ''-volume-to-surface-mapping''"
  by (simp add: surf_mapping_cmd_def)

lemma resample_cmd_nth1: "resample_cmd env s tmpdir ! Suc 0 = ''-volume-affine-resample''"
  by (simp add: resample_cmd_def)

lemma dense_cmd_nth1: "dense_cmd s tmpdir ! Suc 0 = wb_subcommand s"
  by (simp add: dense_cmd_def)

lemma dilate_cmd_nth1: "dilate_cmd s tmpdir ! Suc 0 = ''-cifti-dilate''"
  by (simp add: dilate_cmd_def)

lemma wb_subcommand_cases:
  "wb_subcommand s = ''-cifti-create-dense-timeseries'' \<and> endswith (outputname s) ''dtseries.nii''
   \<or> wb_subcommand s = ''-cifti-create-dense-scalar'' \<and> \<not> endswith (outputname s) ''dtseries.nii''"
  by (simp add: wb_subcommand_def)

lemmas cmd_nth1 = surf_mapping_cmd_nth1 resample_cmd_nth1 dense_cmd_nth1 dilate_cmd_nth1

lemma mapping_in_trace:
  assumes "c \<in> set (trace (run_ciftify_vol_result env s tmpdir))"
    and "c ! 1 = ''-volume-to-surface-mapping''"
  shows "c = surf_mapping_cmd s tmpdir ''L'' \<or> c = surf_mapping_cmd s tmpdir ''R''"
  using issued_cases [OF assms(1)] assms(2) wb_subcommand_cases [of s]
  by (auto simp: cmd_nth1)

lemma dilate_in_trace:
  assumes "c \<in> set (trace (run_ciftify_vol_result env s tmpdir))"
    and "c ! 1 = ''-cifti-dilate''"
  shows "truthy (dilate_mm s) \<and> c = dilate_cmd s tmpdir"
  using issued_cases [OF assms(1)] assms(2) wb_subcommand_cases [of s]
  by (auto simp: cmd_nth1)

lemma resample_in_trace:
  assumes "c \<in> set (trace (run_ciftify_vol_result env s tmpdir))"
    and "c ! 1 = ''-volume-affine-resample''"
  shows "resample s \<and> c = resample_cmd env s tmpdir"
  using issued_cases [OF assms(1)] assms(2) wb_subcommand_cases [of s]
  by (auto simp: cmd_nth1)

lemma dense_in_trace:
  assumes "c \<in> set (trace (run_ciftify_vol_result env s tmpdir))"
    and "c ! 1 = ''-cifti-create-dense-timeseries'' \<or> c ! 1 = ''-cifti-create-dense-scalar''"
  shows "c = dense_cmd s tmpdir"
  using issued_cases [OF assms(1)] assms(2)
  by (auto simp: cmd_nth1)

lemma trace_positions:
  assumes "exited (run_ciftify_vol_result env s tmpdir) = None"
  shows "trace (run_ciftify_vol_result env s tmpdir) ! 0 = surf_mapping_cmd s tmpdir ''L''"
    and "trace (run_ciftify_vol_result env s tmpdir) ! 1 = surf_mapping_cmd s tmpdir ''R''"
    and "resample s \<Longrightarrow> trace (run_ciftify_vol_result env s tmpdir) ! 2 = resample_cmd env s tmpdir"
    and "resample s \<Longrightarrow> trace (run_ciftify_vol_result env s tmpdir) ! 3 = dense_cmd s tmpdir"
    and "\<not> resample s \<Longrightarrow> trace (run_ciftify_vol_result env s tmpdir) ! 2 = dense_cmd s tmpdir"
    and "truthy (dilate_mm s) \<Longrightarrow> last (trace (run_ciftify_vol_result env s tmpdir)) = dilate_cmd s tmpdir"
  using trace_complete [OF assms] by (simp_all add: command_sequence_def)

lemma until_failure_last:
  "\<not> list_all ok cs \<Longrightarrow> until_failure ok cs \<noteq> [] \<and> \<not> ok (last (until_failure ok cs))"
  by (induction cs) auto

lemma example_labels_run:
  "exited (run_ciftify_vol_result example_env example_labels_settings ''/tmp/t'') = None"
  by code_simp

lemma example_dilate_run:
  "exited (run_ciftify_vol_result example_env example_dilate_settings ''/tmp/t'') = None"
  by code_simp

lemma example_run:
  "exited (run_ciftify_vol_result example_env example_settings ''/tmp/t'') = None"
  by code_simp

lemma example_failing_UserSettings:
  "UserSettings example_failing_env ''/work'' example_args = Inr example_settings"
  by code_simp

section \<open>The claims\<close>

text \<open>
  C1. When the resample flag is unset and the voxel spacing of the subcortical input
  volume differs from that of the atlas volume, the process ends with a non-zero status
  and has not started the external tool.
\<close>

theorem C1_spacing_mismatch_is_fatal:
  assumes "\<not> arg_resample_nifti args"
    and "voxel_spacing env (volume_or_default (arg_subcortical_vol args) args)
         \<noteq> voxel_spacing env (atlas_vol_path env wd (use_ciftify_global (arg_subject args))
                                 (get_subject (arg_subject args)))"
  shows "fst (main env wd args) \<noteq> 0 \<and> snd (main env wd args) = []"
proof (cases "UserSettings env wd args")
  case (Inl e)
  then show ?thesis by (simp add: main_Inl)
next
  case (Inr s)
  from UserSettings_Inr(3,10,14) [OF Inr] UserSettings_Inr_checked(8) [OF Inr] assms
  show ?thesis by simp
qed

theorem C1_witness:
  "fst (main example_env ''/work'' (example_args\<lparr>arg_vol := ''/in/vol3mm.nii.gz''\<rparr>)) \<noteq> 0
   \<and> snd (main example_env ''/work'' (example_args\<lparr>arg_vol := ''/in/vol3mm.nii.gz''\<rparr>)) = []"
proof -
  have h1: "\<not> arg_resample_nifti (example_args\<lparr>arg_vol := ''/in/vol3mm.nii.gz''\<rparr>)"
    by (simp add: example_args_def)
  have h2: "voxel_spacing example_env
              (volume_or_default (arg_subcortical_vol (example_args\<lparr>arg_vol := ''/in/vol3mm.nii.gz''\<rparr>))
                 (example_args\<lparr>arg_vol := ''/in/vol3mm.nii.gz''\<rparr>))
            \<noteq> voxel_spacing example_env
                (atlas_vol_path example_env ''/work''
                   (use_ciftify_global (arg_subject (example_args\<lparr>arg_vol := ''/in/vol3mm.nii.gz''\<rparr>)))
                   (get_subject (arg_subject (example_args\<lparr>arg_vol := ''/in/vol3mm.nii.gz''\<rparr>))))"
    by code_simp
  show ?thesis by (rule C1_spacing_mismatch_is_fatal [OF h1 h2])
qed

text \<open>
  C2. With the integer-labels flag set, every surface-mapping command that is started
  ends with \<^verbatim>\<open>-enclosing\<close> and the dilation command ends with \<^verbatim>\<open>-nearest\<close>; with the flag
  unset, every surface-mapping command ends with \<^verbatim>\<open>-ribbon-constrained\<close> and the white and
  pial surfaces of its hemisphere, named \<^verbatim>\<open><subject>.<hemi>.white<mesh>.surf.gii\<close> and
  \<^verbatim>\<open><subject>.<hemi>.pial<mesh>.surf.gii\<close> in the surface directory, and the dilation
  command has nothing after its two midthickness surfaces. A dilation command is started only when dilation was asked for. In a run
  that no command ends early, the first two commands are the mappings of the left and
  the right hemisphere and, when dilation was asked for, the last one is the dilation.
\<close>

theorem C2_mapping_and_dilation_modes:
  "(\<forall>c\<in>set (trace (run_ciftify_vol_result env s tmpdir)).
      (c ! 1 = ''-volume-to-surface-mapping'' \<longrightarrow>
         (\<exists>hemi\<in>{''L'', ''R''}.
            take 5 c = [''wb_command'', ''-volume-to-surface-mapping'', surface_nii s,
                        os_path_join (surf_dir s) [subject s @ ''.'' @ hemi @ ''.midthickness'' @ surf_mesh s @ ''.surf.gii''], os_path_join tmpdir [hemi @ ''.func.gii'']]
          \<and> (integer_labels s \<longrightarrow> drop 5 c = [''-enclosing''])
          \<and> (\<not> integer_labels s \<longrightarrow>
                drop 5 c = [''-ribbon-constrained'', os_path_join (surf_dir s) [subject s @ ''.'' @ hemi @ ''.white'' @ surf_mesh s @ ''.surf.gii''],
                            os_path_join (surf_dir s) [subject s @ ''.'' @ hemi @ ''.pial'' @ surf_mesh s @ ''.surf.gii'']])))
    \<and> (c ! 1 = ''-cifti-dilate'' \<longrightarrow>
         truthy (dilate_mm s)
       \<and> take 11 c = [''wb_command'', ''-cifti-dilate'', dense_out s tmpdir, ''COLUMN'',
                       str_of (dilate_mm s), str_of (dilate_mm s), outputname s,
                       ''-left-surface'', os_path_join (surf_dir s) [subject s @ ''.L.midthickness'' @ surf_mesh s @ ''.surf.gii''],
                       ''-right-surface'', os_path_join (surf_dir s) [subject s @ ''.R.midthickness'' @ surf_mesh s @ ''.surf.gii'']]
       \<and> (integer_labels s \<longrightarrow> drop 11 c = [''-nearest''])
       \<and> (\<not> integer_labels s \<longrightarrow> drop 11 c = [])))
   \<and> (exited (run_ciftify_vol_result env s tmpdir) = None \<longrightarrow>
        trace (run_ciftify_vol_result env s tmpdir) ! 0 ! 1 = ''-volume-to-surface-mapping''
      \<and> trace (run_ciftify_vol_result env s tmpdir) ! 0 ! 3 = os_path_join (surf_dir s) [subject s @ ''.L.midthickness'' @ surf_mesh s @ ''.surf.gii'']
      \<and> trace (run_ciftify_vol_result env s tmpdir) ! 1 ! 1 = ''-volume-to-surface-mapping''
      \<and> trace (run_ciftify_vol_result env s tmpdir) ! 1 ! 3 = os_path_join (surf_dir s) [subject s @ ''.R.midthickness'' @ surf_mesh s @ ''.surf.gii'']
      \<and> (truthy (dilate_mm s) \<longrightarrow>
            last (trace (run_ciftify_vol_result env s tmpdir)) ! 1 = ''-cifti-dilate''))"
proof -
  have a: "\<exists>hemi\<in>{''L'', ''R''}.
            take 5 c = [''wb_command'', ''-volume-to-surface-mapping'', surface_nii s,
                        os_path_join (surf_dir s) [subject s @ ''.'' @ hemi @ ''.midthickness'' @ surf_mesh s @ ''.surf.gii''], os_path_join tmpdir [hemi @ ''.func.gii'']]
          \<and> (integer_labels s \<longrightarrow> drop 5 c = [''-enclosing''])
          \<and> (\<not> integer_labels s \<longrightarrow>
                drop 5 c = [''-ribbon-constrained'', os_path_join (surf_dir s) [subject s @ ''.'' @ hemi @ ''.white'' @ surf_mesh s @ ''.surf.gii''],
                            os_path_join (surf_dir s) [subject s @ ''.'' @ hemi @ ''.pial'' @ surf_mesh s @ ''.surf.gii'']])"
    if "c \<in> set (trace (run_ciftify_vol_result env s tmpdir))"
      and "c ! 1 = ''-volume-to-surface-mapping''" for c
    using mapping_in_trace [OF that] by (auto simp: surf_mapping_cmd_def surf_file_def)
  have b: "truthy (dilate_mm s)
       \<and> take 11 c = [''wb_command'', ''-cifti-dilate'', dense_out s tmpdir, ''COLUMN'',
                       str_of (dilate_mm s), str_of (dilate_mm s), outputname s,
                       ''-left-surface'', os_path_join (surf_dir s) [subject s @ ''.L.midthickness'' @ surf_mesh s @ ''.surf.gii''],
                       ''-right-surface'', os_path_join (surf_dir s) [subject s @ ''.R.midthickness'' @ surf_mesh s @ ''.surf.gii'']]
       \<and> (integer_labels s \<longrightarrow> drop 11 c = [''-nearest''])
       \<and> (\<not> integer_labels s \<longrightarrow> drop 11 c = [])"
    if "c \<in> set (trace (run_ciftify_vol_result env s tmpdir))"
      and "c ! 1 = ''-cifti-dilate''" for c
    using dilate_in_trace [OF that] by (simp add: dilate_cmd_def surf_file_def)
  have c: "trace (run_ciftify_vol_result env s tmpdir) ! 0 ! 1 = ''-volume-to-surface-mapping''
      \<and> trace (run_ciftify_vol_result env s tmpdir) ! 0 ! 3 = os_path_join (surf_dir s) [subject s @ ''.L.midthickness'' @ surf_mesh s @ ''.surf.gii'']
      \<and> trace (run_ciftify_vol_result env s tmpdir) ! 1 ! 1 = ''-volume-to-surface-mapping''
      \<and> trace (run_ciftify_vol_result env s tmpdir) ! 1 ! 3 = os_path_join (surf_dir s) [subject s @ ''.R.midthickness'' @ surf_mesh s @ ''.surf.gii'']
      \<and> (truthy (dilate_mm s) \<longrightarrow>
            last (trace (run_ciftify_vol_result env s tmpdir)) ! 1 = ''-cifti-dilate'')"
    if "exited (run_ciftify_vol_result env s tmpdir) = None"
    using trace_positions(1,2,6) [OF that]
    by (simp add: surf_mapping_cmd_def dilate_cmd_def surf_file_def)
  from a b c show ?thesis by blast
qed

theorem C2_witness:
  "drop 5 (trace (run_ciftify_vol_result example_env example_labels_settings ''/tmp/t'') ! 0)
     = [''-enclosing'']
   \<and> drop 11 (last (trace (run_ciftify_vol_result example_env example_labels_settings ''/tmp/t'')))
     = [''-nearest'']
   \<and> drop 5 (trace (run_ciftify_vol_result example_env example_dilate_settings ''/tmp/t'') ! 0)
     = [''-ribbon-constrained'',
        ''/work/sub01/MNINonLinear/fsaverage_LR32k/sub01.L.white.32k_fs_LR.surf.gii'',
        ''/work/sub01/MNINonLinear/fsaverage_LR32k/sub01.L.pial.32k_fs_LR.surf.gii'']
   \<and> drop 11 (last (trace (run_ciftify_vol_result example_env example_dilate_settings ''/tmp/t'')))
     = []"
proof -
  let ?R = "run_ciftify_vol_result example_env example_labels_settings ''/tmp/t''"
  note c2 = C2_mapping_and_dilation_modes [of example_env example_labels_settings "''/tmp/t''"]
  have il: "integer_labels example_labels_settings" "truthy (dilate_mm example_labels_settings)"
    by (simp_all add: example_labels_settings_def truthy_def)
  have m: "trace ?R ! 0 \<in> set (trace ?R)" "last (trace ?R) \<in> set (trace ?R)"
    by code_simp+
  from c2 example_labels_run il
  have k: "trace ?R ! 0 ! 1 = ''-volume-to-surface-mapping''" "last (trace ?R) ! 1 = ''-cifti-dilate''"
    by blast+
  from c2 m(1) k(1) il(1) have 1: "drop 5 (trace ?R ! 0) = [''-enclosing'']" by blast
  from c2 m(2) k(2) il(1) have 2: "drop 11 (last (trace ?R)) = [''-nearest'']" by blast
  let ?P = "run_ciftify_vol_result example_env example_dilate_settings ''/tmp/t''"
  let ?s = example_dilate_settings
  note d2 = C2_mapping_and_dilation_modes [of example_env example_dilate_settings "''/tmp/t''"]
  have nl: "\<not> integer_labels example_dilate_settings" "truthy (dilate_mm example_dilate_settings)"
    by (simp_all add: example_dilate_settings_def example_settings_def truthy_def)
  have n: "trace ?P ! 0 \<in> set (trace ?P)" "last (trace ?P) \<in> set (trace ?P)"
    by code_simp+
  from d2 example_dilate_run nl
  have j: "trace ?P ! 0 ! 1 = ''-volume-to-surface-mapping''"
          "trace ?P ! 0 ! 3
             = os_path_join (surf_dir ?s) [subject ?s @ ''.L.midthickness'' @ surf_mesh ?s @ ''.surf.gii'']"
          "last (trace ?P) ! 1 = ''-cifti-dilate''"
    by blast+
  from d2 n(1) j(1) nl(1)
  obtain hemi where h: "hemi \<in> {''L'', ''R''}"
    and t: "take 5 (trace ?P ! 0)
              = [''wb_command'', ''-volume-to-surface-mapping'', surface_nii ?s,
                 os_path_join (surf_dir ?s)
                   [subject ?s @ ''.'' @ hemi @ ''.midthickness'' @ surf_mesh ?s @ ''.surf.gii''],
                 os_path_join ''/tmp/t'' [hemi @ ''.func.gii'']]"
    and r: "drop 5 (trace ?P ! 0)
              = [''-ribbon-constrained'',
                 os_path_join (surf_dir ?s)
                   [subject ?s @ ''.'' @ hemi @ ''.white'' @ surf_mesh ?s @ ''.surf.gii''],
                 os_path_join (surf_dir ?s)
                   [subject ?s @ ''.'' @ hemi @ ''.pial'' @ surf_mesh ?s @ ''.surf.gii'']]"
    by blast
  have "take 5 (trace ?P ! 0) ! 3 = trace ?P ! 0 ! 3" by simp
  with t j(2)
  have e: "os_path_join (surf_dir ?s)
             [subject ?s @ ''.'' @ hemi @ ''.midthickness'' @ surf_mesh ?s @ ''.surf.gii'']
           = os_path_join (surf_dir ?s)
               [subject ?s @ ''.L.midthickness'' @ surf_mesh ?s @ ''.surf.gii'']"
    by simp
  have "hemi = ''L''"
  proof (rule ccontr)
    assume "hemi \<noteq> ''L''"
    with h have "hemi = ''R''" by simp
    with e show False
      by (simp add: example_dilate_settings_def example_settings_def os_path_join_def
            join_step_def startswith_def endswith_def)
  qed
  with r
  have 3: "drop 5 (trace ?P ! 0)
     = [''-ribbon-constrained'',
        ''/work/sub01/MNINonLinear/fsaverage_LR32k/sub01.L.white.32k_fs_LR.surf.gii'',
        ''/work/sub01/MNINonLinear/fsaverage_LR32k/sub01.L.pial.32k_fs_LR.surf.gii'']"
    by (simp add: example_dilate_settings_def example_settings_def os_path_join_def
          join_step_def startswith_def endswith_def)
  from d2 n(2) j(3) nl(1) have 4: "drop 11 (last (trace ?P)) = []" by blast
  from 1 2 3 4 show ?thesis by blast
qed

text \<open>
  C3 as stated fails: the surface meshes are handed to the external tool without any test
  for their existence. In the concrete invocation the run ends with status 0 although the
  midthickness surface named in its first command does not exist.
\<close>

theorem C3_counterexample:
  "fst (main example_env ''/work'' example_args) = 0
   \<and> hd (snd (main example_env ''/work'' example_args)) ! 3
       = ''/work/sub01/MNINonLinear/fsaverage_LR32k/sub01.L.midthickness.32k_fs_LR.surf.gii''
   \<and> \<not> path_exists example_env
         ''/work/sub01/MNINonLinear/fsaverage_LR32k/sub01.L.midthickness.32k_fs_LR.surf.gii''"
  by code_simp

text \<open>
  C3, amended. The atlas volume and both ROI masks exist, and the surface and
  subcortical input volumes are regular files, before the first external command runs:
  if one of them is missing, the process ends with status 1 and no command has been
  started; if a command has been started, the settings were built, their five paths
  passed the tests, and every command started is one of the constructed sequence. The
  surface meshes are not tested.
\<close>

theorem C3_checked_paths:
  fixes env :: "'sp env" and wd :: string and args :: arguments
  defines "ug \<equiv> use_ciftify_global (arg_subject args)"
    and "subj \<equiv> get_subject (arg_subject args)"
  shows "(\<not> path_exists env (atlas_vol_path env wd ug subj)
          \<or> \<not> path_exists env (surf_roi_path env ug (get_surf_dir env wd ug subj) subj ''L'')
          \<or> \<not> path_exists env (surf_roi_path env ug (get_surf_dir env wd ug subj) subj ''R'')
          \<or> \<not> isfile env (volume_or_default (arg_surface_vol args) args)
          \<or> \<not> isfile env (volume_or_default (arg_subcortical_vol args) args)
         \<longrightarrow> main env wd args = (1, []))
       \<and> (snd (main env wd args) \<noteq> [] \<longrightarrow>
            (\<exists>s. UserSettings env wd args = Inr s
               \<and> atlas_vol s = atlas_vol_path env wd ug subj
               \<and> surf_roi_L s = surf_roi_path env ug (get_surf_dir env wd ug subj) subj ''L''
               \<and> surf_roi_R s = surf_roi_path env ug (get_surf_dir env wd ug subj) subj ''R''
               \<and> surface_nii s = volume_or_default (arg_surface_vol args) args
               \<and> subcortical_nii s = volume_or_default (arg_subcortical_vol args) args
               \<and> path_exists env (atlas_vol s)
               \<and> path_exists env (surf_roi_L s) \<and> path_exists env (surf_roi_R s)
               \<and> isfile env (surface_nii s) \<and> isfile env (subcortical_nii s)
               \<and> set (snd (main env wd args)) \<subseteq> set (command_sequence env s (tempdir env))))"
proof (cases "UserSettings env wd args")
  case (Inl e)
  then show ?thesis by (simp add: main_Inl)
next
  case (Inr s)
  note f = UserSettings_Inr [OF Inr] and k = UserSettings_Inr_checked [OF Inr]
  have 1: "path_exists env (atlas_vol_path env wd ug subj)"
    using f(10) k(2) by (simp add: ug_def subj_def)
  have 2: "path_exists env (surf_roi_path env ug (get_surf_dir env wd ug subj) subj ''L'')"
    using f(7,8,11) k(3) by (simp add: ug_def subj_def)
  have 3: "path_exists env (surf_roi_path env ug (get_surf_dir env wd ug subj) subj ''R'')"
    using f(7,8,12) k(4) by (simp add: ug_def subj_def)
  have 4: "isfile env (volume_or_default (arg_surface_vol args) args)"
    using f(13) k(5) by simp
  have 5: "isfile env (volume_or_default (arg_subcortical_vol args) args)"
    using f(14) k(7) by simp
  have 6: "set (snd (main env wd args)) \<subseteq> set (command_sequence env s (tempdir env))"
    by (simp add: main_Inr [OF Inr] until_failure_set)
  have 7: "atlas_vol s = atlas_vol_path env wd ug subj"
      "surf_roi_L s = surf_roi_path env ug (get_surf_dir env wd ug subj) subj ''L''"
      "surf_roi_R s = surf_roi_path env ug (get_surf_dir env wd ug subj) subj ''R''"
    using f(7,8,10,11,12) by (simp_all add: ug_def subj_def)
  from 1 2 3 4 5 6 7 f(13,14) k(2,3,4,5,7) Inr show ?thesis by simp
qed

theorem C3_witness:
  "main example_env ''/work'' (example_args\<lparr>arg_subject := ''sub02''\<rparr>) = (1, [])
   \<and> path_exists example_env (atlas_vol example_settings)
   \<and> path_exists example_env (surf_roi_L example_settings)
   \<and> path_exists example_env (surf_roi_R example_settings)
   \<and> isfile example_env (surface_nii example_settings)
   \<and> isfile example_env (subcortical_nii example_settings)"
proof -
  have a: "\<not> path_exists example_env
              (atlas_vol_path example_env ''/work''
                 (use_ciftify_global (arg_subject (example_args\<lparr>arg_subject := ''sub02''\<rparr>)))
                 (get_subject (arg_subject (example_args\<lparr>arg_subject := ''sub02''\<rparr>))))"
    by code_simp
  from C3_checked_paths [where env = example_env and wd = "''/work''"
         and args = "example_args\<lparr>arg_subject := ''sub02''\<rparr>"] a
  have 1: "main example_env ''/work'' (example_args\<lparr>arg_subject := ''sub02''\<rparr>) = (1, [])"
    by blast
  have b: "snd (main example_env ''/work'' example_args) \<noteq> []"
    by code_simp
  from C3_checked_paths [where env = example_env and wd = "''/work''" and args = example_args] b
  obtain s where "UserSettings example_env ''/work'' example_args = Inr s"
    and "path_exists example_env (atlas_vol s)"
    and "path_exists example_env (surf_roi_L s)" and "path_exists example_env (surf_roi_R s)"
    and "isfile example_env (surface_nii s)" and "isfile example_env (subcortical_nii s)"
    by blast
  with example_UserSettings 1 show ?thesis by simp
qed

text \<open>
  C4 as stated fails: the test in \<^verbatim>\<open>get_output_filename\<close> is for the suffixes
  \<^verbatim>\<open>dscalar.nii\<close> and \<^verbatim>\<open>dtseries.nii\<close> without the leading dot, as its docstring says,
  so a name such as \<^verbatim>\<open>/out/mapdscalar.nii\<close> is kept as it is.
\<close>

theorem C4_counterexample:
  "get_output_filename example_env ''/out/mapdscalar.nii'' = Inr ''/out/mapdscalar.nii''
   \<and> \<not> endswith ''/out/mapdscalar.nii'' ''.dscalar.nii''
   \<and> \<not> endswith ''/out/mapdscalar.nii'' ''.dtseries.nii''"
  by code_simp

text \<open>
  C4, amended. When the output directory is writable, the resolved output filename ends
  in \<^verbatim>\<open>dscalar.nii\<close> or \<^verbatim>\<open>dtseries.nii\<close>; if the real path of the user-supplied name
  ends in neither, \<^verbatim>\<open>.dscalar.nii\<close> is appended to that real path, and otherwise the
  real path is the result.
\<close>

theorem C4_output_filename_suffix:
  assumes "get_output_filename env user_outputname = Inr out"
  shows "(endswith out ''dscalar.nii'' \<or> endswith out ''dtseries.nii'')
       \<and> (\<not> endswith (realpath env user_outputname) ''dscalar.nii''
            \<and> \<not> endswith (realpath env user_outputname) ''dtseries.nii''
          \<longrightarrow> out = realpath env user_outputname @ ''.dscalar.nii''
              \<and> endswith out ''.dscalar.nii'')
       \<and> (endswith (realpath env user_outputname) ''dscalar.nii''
            \<or> endswith (realpath env user_outputname) ''dtseries.nii''
          \<longrightarrow> out = realpath env user_outputname)"
  using get_output_filename_Inr [OF assms]
  by (auto simp: endswith_dscalar endswith_append)

theorem C4_witness:
  "''/out/map.dscalar.nii'' = realpath example_env ''/out/map'' @ ''.dscalar.nii''
   \<and> endswith ''/out/map.dscalar.nii'' ''.dscalar.nii''"
proof -
  have h: "get_output_filename example_env ''/out/map'' = Inr ''/out/map.dscalar.nii''"
    by code_simp
  have n: "\<not> endswith (realpath example_env ''/out/map'') ''dscalar.nii''
           \<and> \<not> endswith (realpath example_env ''/out/map'') ''dtseries.nii''"
    by code_simp
  from C4_output_filename_suffix [OF h] n show ?thesis by blast
qed

text \<open>
  C5. For every subject other than \<^verbatim>\<open>HCP_S1200_GroupAvg\<close> the surface directory is the
  work directory joined with the subject, \<^verbatim>\<open>MNINonLinear\<close> and \<^verbatim>\<open>fsaverage_LR32k\<close>;
  for a non-empty work directory without a trailing slash and a non-empty subject without
  a slash at either end this is the text
  \<^verbatim>\<open><work_dir>/<subject>/MNINonLinear/fsaverage_LR32k\<close>.
\<close>

theorem C5_surface_directory:
  assumes "arg_subject args \<noteq> ''HCP_S1200_GroupAvg''"
  shows "get_surf_dir env wd (use_ciftify_global (arg_subject args)) (get_subject (arg_subject args))
           = os_path_join wd [arg_subject args, ''MNINonLinear'', ''fsaverage_LR32k'']
       \<and> (UserSettings env wd args = Inr s \<longrightarrow>
            surf_dir s = os_path_join wd [arg_subject args, ''MNINonLinear'', ''fsaverage_LR32k''])
       \<and> (wd \<noteq> [] \<and> \<not> endswith wd ''/'' \<and> arg_subject args \<noteq> []
            \<and> \<not> startswith (arg_subject args) ''/'' \<and> \<not> endswith (arg_subject args) ''/''
          \<longrightarrow> os_path_join wd [arg_subject args, ''MNINonLinear'', ''fsaverage_LR32k'']
              = wd @ ''/'' @ arg_subject args @ ''/MNINonLinear/fsaverage_LR32k'')"
proof -
  have a: "get_surf_dir env wd (use_ciftify_global (arg_subject args)) (get_subject (arg_subject args))
           = os_path_join wd [arg_subject args, ''MNINonLinear'', ''fsaverage_LR32k'']"
    using assms by (simp add: get_surf_dir_def use_ciftify_global_def get_subject_def)
  have b: "UserSettings env wd args = Inr s \<longrightarrow>
            surf_dir s = os_path_join wd [arg_subject args, ''MNINonLinear'', ''fsaverage_LR32k'']"
    using a by (auto dest: UserSettings_Inr(8))
  have c: "wd \<noteq> [] \<and> \<not> endswith wd ''/'' \<and> arg_subject args \<noteq> []
            \<and> \<not> startswith (arg_subject args) ''/'' \<and> \<not> endswith (arg_subject args) ''/''
          \<longrightarrow> os_path_join wd [arg_subject args, ''MNINonLinear'', ''fsaverage_LR32k'']
              = wd @ ''/'' @ arg_subject args @ ''/MNINonLinear/fsaverage_LR32k''"
    by (simp add: os_path_join_def join_step_def endswith_slash startswith_slash)
  from a b c show ?thesis by blast
qed


theorem C5_witness:
  "surf_dir example_settings = ''/work/sub01/MNINonLinear/fsaverage_LR32k''"
proof -
  have h: "arg_subject example_args \<noteq> ''HCP_S1200_GroupAvg''"
    by (simp add: example_args_def)
  have w: "''/work'' \<noteq> [] \<and> \<not> endswith ''/work'' ''/'' \<and> arg_subject example_args \<noteq> []
            \<and> \<not> startswith (arg_subject example_args) ''/''
            \<and> \<not> endswith (arg_subject example_args) ''/''"
    by (simp add: example_args_def endswith_def startswith_def)
  from C5_surface_directory [where env = example_env and wd = "''/work''"
         and s = example_settings, OF h] example_UserSettings w
  have "surf_dir example_settings
        = ''/work'' @ ''/'' @ arg_subject example_args @ ''/MNINonLinear/fsaverage_LR32k''"
    by simp
  then show ?thesis by (simp add: example_args_def)
qed

text \<open>
  C6. For the subject \<^verbatim>\<open>HCP_S1200_GroupAvg\<close> the surface directory, the atlas volume
  and both ROI masks are the fixed places given by \<^verbatim>\<open>ciftify.config\<close>; changing the
  work directory changes nothing in the outcome of \<^verbatim>\<open>UserSettings\<close> but the attribute
  \<open>work_dir\<close> itself.
\<close>

theorem C6_group_average_paths:
  assumes "arg_subject args = ''HCP_S1200_GroupAvg''"
  shows "UserSettings env wd' args
           = map_sum id (\<lambda>s. s\<lparr>work_dir := wd'\<rparr>) (UserSettings env wd args)
       \<and> (UserSettings env wd args = Inr s \<longrightarrow>
            surf_dir s = find_HCP_S1200_GroupAvg env
          \<and> atlas_vol s = os_path_join (find_ciftify_global env)
                             [''91282_Greyordinates'', ''Atlas_ROIs.2.nii.gz'']
          \<and> surf_roi_L s = os_path_join (find_ciftify_global env)
                             [''91282_Greyordinates'', ''L.atlasroi.32k_fs_LR.shape.gii'']
          \<and> surf_roi_R s = os_path_join (find_ciftify_global env)
                             [''91282_Greyordinates'', ''R.atlasroi.32k_fs_LR.shape.gii''])"
proof -
  have g: "use_ciftify_global (arg_subject args)"
    using assms by (simp add: use_ciftify_global_def)
  have a: "UserSettings env wd' args
           = map_sum id (\<lambda>s. s\<lparr>work_dir := wd'\<rparr>) (UserSettings env wd args)"
    using g
    by (simp add: UserSettings_def Let_def get_surf_dir_def get_atlas_vol_def atlas_vol_path_def
          get_surf_roi_def surf_roi_path_def split: sum.splits)
  have b: "UserSettings env wd args = Inr s \<longrightarrow>
            surf_dir s = find_HCP_S1200_GroupAvg env
          \<and> atlas_vol s = os_path_join (find_ciftify_global env)
                             [''91282_Greyordinates'', ''Atlas_ROIs.2.nii.gz'']
          \<and> surf_roi_L s = os_path_join (find_ciftify_global env)
                             [''91282_Greyordinates'', ''L.atlasroi.32k_fs_LR.shape.gii'']
          \<and> surf_roi_R s = os_path_join (find_ciftify_global env)
                             [''91282_Greyordinates'', ''R.atlasroi.32k_fs_LR.shape.gii'']"
  proof
    assume u: "UserSettings env wd args = Inr s"
    from UserSettings_Inr(8,10,11,12) [OF u] g
    show "surf_dir s = find_HCP_S1200_GroupAvg env
          \<and> atlas_vol s = os_path_join (find_ciftify_global env)
                             [''91282_Greyordinates'', ''Atlas_ROIs.2.nii.gz'']
          \<and> surf_roi_L s = os_path_join (find_ciftify_global env)
                             [''91282_Greyordinates'', ''L.atlasroi.32k_fs_LR.shape.gii'']
          \<and> surf_roi_R s = os_path_join (find_ciftify_global env)
                             [''91282_Greyordinates'', ''R.atlasroi.32k_fs_LR.shape.gii'']"
      by (simp add: get_surf_dir_def atlas_vol_path_def surf_roi_path_def)
  qed
  from a b show ?thesis by blast
qed

theorem C6_witness:
  "UserSettings example_env ''/elsewhere'' (example_args\<lparr>arg_subject := ''HCP_S1200_GroupAvg''\<rparr>)
     = Inr (example_group_settings\<lparr>work_dir := ''/elsewhere''\<rparr>)
   \<and> surf_dir example_group_settings = find_HCP_S1200_GroupAvg example_env
   \<and> atlas_vol example_group_settings = os_path_join (find_ciftify_global example_env)
                             [''91282_Greyordinates'', ''Atlas_ROIs.2.nii.gz'']
   \<and> surf_roi_L example_group_settings = os_path_join (find_ciftify_global example_env)
                             [''91282_Greyordinates'', ''L.atlasroi.32k_fs_LR.shape.gii'']
   \<and> surf_roi_R example_group_settings = os_path_join (find_ciftify_global example_env)
                             [''91282_Greyordinates'', ''R.atlasroi.32k_fs_LR.shape.gii'']"
proof -
  have h: "arg_subject (example_args\<lparr>arg_subject := ''HCP_S1200_GroupAvg''\<rparr>) = ''HCP_S1200_GroupAvg''"
    by simp
  from C6_group_average_paths [where env = example_env and wd = "''/work''"
         and wd' = "''/elsewhere''" and s = example_group_settings, OF h]
       example_group_UserSettings
  show ?thesis by simp
qed

text \<open>
  C7. A dense-CIFTI creation with \<^verbatim>\<open>-cifti-create-dense-timeseries\<close> is started only when
  the output filename ends in \<^verbatim>\<open>dtseries.nii\<close>, one with \<^verbatim>\<open>-cifti-create-dense-scalar\<close> only
  when it does not; in a run that no command ends early there is exactly one such step,
  with the variant chosen by that suffix.
\<close>

theorem C7_dense_variant:
  "(\<forall>c\<in>set (trace (run_ciftify_vol_result env s tmpdir)).
      (c ! 1 = ''-cifti-create-dense-timeseries'' \<longrightarrow> endswith (outputname s) ''dtseries.nii'')
    \<and> (c ! 1 = ''-cifti-create-dense-scalar'' \<longrightarrow> \<not> endswith (outputname s) ''dtseries.nii''))
   \<and> (exited (run_ciftify_vol_result env s tmpdir) = None \<longrightarrow>
        filter (\<lambda>c. c ! 1 = ''-cifti-create-dense-timeseries''
                   \<or> c ! 1 = ''-cifti-create-dense-scalar'')
          (trace (run_ciftify_vol_result env s tmpdir)) = [dense_cmd s tmpdir]
      \<and> (endswith (outputname s) ''dtseries.nii'' \<longrightarrow>
            dense_cmd s tmpdir ! 1 = ''-cifti-create-dense-timeseries'')
      \<and> (\<not> endswith (outputname s) ''dtseries.nii'' \<longrightarrow>
            dense_cmd s tmpdir ! 1 = ''-cifti-create-dense-scalar''))"
proof -
  have a: "(c ! 1 = ''-cifti-create-dense-timeseries'' \<longrightarrow> endswith (outputname s) ''dtseries.nii'')
    \<and> (c ! 1 = ''-cifti-create-dense-scalar'' \<longrightarrow> \<not> endswith (outputname s) ''dtseries.nii'')"
    if m: "c \<in> set (trace (run_ciftify_vol_result env s tmpdir))" for c
  proof (cases "c ! 1 = ''-cifti-create-dense-timeseries'' \<or> c ! 1 = ''-cifti-create-dense-scalar''")
    case True
    from dense_in_trace [OF m True] wb_subcommand_cases [of s]
    show ?thesis by (auto simp: dense_cmd_nth1)
  next
    case False
    then show ?thesis by simp
  qed
  have b: "filter (\<lambda>c. c ! 1 = ''-cifti-create-dense-timeseries''
                   \<or> c ! 1 = ''-cifti-create-dense-scalar'')
          (trace (run_ciftify_vol_result env s tmpdir)) = [dense_cmd s tmpdir]"
    if "exited (run_ciftify_vol_result env s tmpdir) = None"
    using trace_complete [OF that] wb_subcommand_cases [of s]
    by (auto simp: command_sequence_def cmd_nth1)
  have c: "(endswith (outputname s) ''dtseries.nii'' \<longrightarrow>
            dense_cmd s tmpdir ! 1 = ''-cifti-create-dense-timeseries'')
      \<and> (\<not> endswith (outputname s) ''dtseries.nii'' \<longrightarrow>
            dense_cmd s tmpdir ! 1 = ''-cifti-create-dense-scalar'')"
    by (simp add: dense_cmd_def wb_subcommand_def)
  from a b c show ?thesis by blast
qed

theorem C7_witness:
  "filter (\<lambda>c. c ! 1 = ''-cifti-create-dense-timeseries'' \<or> c ! 1 = ''-cifti-create-dense-scalar'')
     (trace (run_ciftify_vol_result example_env example_settings ''/tmp/t''))
     = [dense_cmd example_settings ''/tmp/t'']
   \<and> dense_cmd example_settings ''/tmp/t'' ! 1 = ''-cifti-create-dense-scalar''"
proof -
  have n: "\<not> endswith (outputname example_settings) ''dtseries.nii''"
    by code_simp
  from C7_dense_variant [of example_env example_settings "''/tmp/t''"] example_run n
  show ?thesis by blast
qed

text \<open>
  C8. If the output directory is not writable, the atlas volume or an ROI mask is missing,
  an input volume is missing (or the surface volume has an empty name), or the voxel
  spacings differ while the resample flag is unset, the process ends with status 1 before
  any command. Otherwise the settings are built; the process ends with status 0, having
  started the whole sequence, when every command ends with status 0, and with status 1,
  right after the first failing command, when one does not. The last part rests on the
  behaviour of \<^verbatim>\<open>run\<close> stated above.
\<close>

theorem C8_exit_status:
  fixes env :: "'sp env" and wd :: string and args :: arguments
  defines "ug \<equiv> use_ciftify_global (arg_subject args)"
    and "subj \<equiv> get_subject (arg_subject args)"
    and "atlas \<equiv> atlas_vol_path env wd (use_ciftify_global (arg_subject args))
                     (get_subject (arg_subject args))"
    and "surf_in \<equiv> volume_or_default (arg_surface_vol args) args"
    and "subc_in \<equiv> volume_or_default (arg_subcortical_vol args) args"
  shows "(\<not> access_W_OK env (os_path_dirname (realpath env (arg_output args)))
          \<or> \<not> path_exists env atlas
          \<or> \<not> path_exists env (surf_roi_path env ug (get_surf_dir env wd ug subj) subj ''L'')
          \<or> \<not> path_exists env (surf_roi_path env ug (get_surf_dir env wd ug subj) subj ''R'')
          \<or> \<not> isfile env surf_in \<or> surf_in = []
          \<or> \<not> isfile env subc_in
          \<or> (\<not> arg_resample_nifti args \<and> voxel_spacing env subc_in \<noteq> voxel_spacing env atlas)
         \<longrightarrow> main env wd args = (1, []))
       \<and> (access_W_OK env (os_path_dirname (realpath env (arg_output args)))
          \<and> path_exists env atlas
          \<and> path_exists env (surf_roi_path env ug (get_surf_dir env wd ug subj) subj ''L'')
          \<and> path_exists env (surf_roi_path env ug (get_surf_dir env wd ug subj) subj ''R'')
          \<and> isfile env surf_in \<and> surf_in \<noteq> []
          \<and> isfile env subc_in
          \<and> (arg_resample_nifti args \<or> voxel_spacing env subc_in = voxel_spacing env atlas)
         \<longrightarrow> (\<exists>s. UserSettings env wd args = Inr s
                \<and> (list_all (\<lambda>c. wb_returncode env c = 0) (command_sequence env s (tempdir env))
                     \<longrightarrow> main env wd args = (0, command_sequence env s (tempdir env)))
                \<and> (\<not> list_all (\<lambda>c. wb_returncode env c = 0) (command_sequence env s (tempdir env))
                     \<longrightarrow> fst (main env wd args) = 1
                        \<and> snd (main env wd args) \<noteq> []
                        \<and> wb_returncode env (last (snd (main env wd args))) \<noteq> 0)))"
proof (cases "UserSettings env wd args")
  case (Inl e)
  have "\<not> (access_W_OK env (os_path_dirname (realpath env (arg_output args)))
          \<and> path_exists env atlas
          \<and> path_exists env (surf_roi_path env ug (get_surf_dir env wd ug subj) subj ''L'')
          \<and> path_exists env (surf_roi_path env ug (get_surf_dir env wd ug subj) subj ''R'')
          \<and> isfile env surf_in \<and> surf_in \<noteq> []
          \<and> isfile env subc_in
          \<and> (arg_resample_nifti args \<or> voxel_spacing env subc_in = voxel_spacing env atlas))"
  proof
    assume "access_W_OK env (os_path_dirname (realpath env (arg_output args)))
          \<and> path_exists env atlas
          \<and> path_exists env (surf_roi_path env ug (get_surf_dir env wd ug subj) subj ''L'')
          \<and> path_exists env (surf_roi_path env ug (get_surf_dir env wd ug subj) subj ''R'')
          \<and> isfile env surf_in \<and> surf_in \<noteq> []
          \<and> isfile env subc_in
          \<and> (arg_resample_nifti args \<or> voxel_spacing env subc_in = voxel_spacing env atlas)"
    then have "\<exists>s. UserSettings env wd args = Inr s"
      unfolding ug_def subj_def atlas_def surf_in_def subc_in_def
      by (intro UserSettings_succeeds) simp_all
    with Inl show False by simp
  qed
  with Inl show ?thesis by (simp add: main_Inl)
next
  case (Inr s)
  note f = UserSettings_Inr [OF Inr] and k = UserSettings_Inr_checked [OF Inr]
  have ok: "access_W_OK env (os_path_dirname (realpath env (arg_output args)))
          \<and> path_exists env atlas
          \<and> path_exists env (surf_roi_path env ug (get_surf_dir env wd ug subj) subj ''L'')
          \<and> path_exists env (surf_roi_path env ug (get_surf_dir env wd ug subj) subj ''R'')
          \<and> isfile env surf_in \<and> surf_in \<noteq> []
          \<and> isfile env subc_in
          \<and> (arg_resample_nifti args \<or> voxel_spacing env subc_in = voxel_spacing env atlas)"
    using f(3,7,8,10,11,12,13,14) k
    by (simp add: ug_def subj_def atlas_def surf_in_def subc_in_def)
  have good: "main env wd args = (0, command_sequence env s (tempdir env))"
    if "list_all (\<lambda>c. wb_returncode env c = 0) (command_sequence env s (tempdir env))"
    using that by (simp add: main_Inr [OF Inr] until_failure_all)
  have bad: "fst (main env wd args) = 1 \<and> snd (main env wd args) \<noteq> []
             \<and> wb_returncode env (last (snd (main env wd args))) \<noteq> 0"
    if "\<not> list_all (\<lambda>c. wb_returncode env c = 0) (command_sequence env s (tempdir env))"
    using that until_failure_last [OF that] by (simp add: main_Inr [OF Inr])
  from ok good bad Inr show ?thesis by auto
qed

theorem C8_witness:
  "fst (main example_env ''/work'' example_args) = 0
   \<and> fst (main example_failing_env ''/work'' example_args) = 1
   \<and> main example_env ''/work'' (example_args\<lparr>arg_output := ''/nowhere/map''\<rparr>) = (1, [])"
proof -
  have v: "access_W_OK example_env (os_path_dirname (realpath example_env (arg_output example_args)))
     \<and> path_exists example_env
         (atlas_vol_path example_env ''/work'' (use_ciftify_global (arg_subject example_args))
            (get_subject (arg_subject example_args)))
     \<and> path_exists example_env
         (surf_roi_path example_env (use_ciftify_global (arg_subject example_args))
            (get_surf_dir example_env ''/work'' (use_ciftify_global (arg_subject example_args))
               (get_subject (arg_subject example_args)))
            (get_subject (arg_subject example_args)) ''L'')
     \<and> path_exists example_env
         (surf_roi_path example_env (use_ciftify_global (arg_subject example_args))
            (get_surf_dir example_env ''/work'' (use_ciftify_global (arg_subject example_args))
               (get_subject (arg_subject example_args)))
            (get_subject (arg_subject example_args)) ''R'')
     \<and> isfile example_env (volume_or_default (arg_surface_vol example_args) example_args)
     \<and> volume_or_default (arg_surface_vol example_args) example_args \<noteq> []
     \<and> isfile example_env (volume_or_default (arg_subcortical_vol example_args) example_args)
     \<and> (arg_resample_nifti example_args
         \<or> voxel_spacing example_env
              (volume_or_default (arg_subcortical_vol example_args) example_args)
            = voxel_spacing example_env
                (atlas_vol_path example_env ''/work''
                   (use_ciftify_global (arg_subject example_args))
                   (get_subject (arg_subject example_args))))"
    by code_simp
  have g: "list_all (\<lambda>c. wb_returncode example_env c = 0)
             (command_sequence example_env example_settings (tempdir example_env))"
    by code_simp
  from C8_exit_status [where env = example_env and wd = "''/work''" and args = example_args] v
  obtain s where "UserSettings example_env ''/work'' example_args = Inr s"
    and "list_all (\<lambda>c. wb_returncode example_env c = 0)
           (command_sequence example_env s (tempdir example_env))
         \<longrightarrow> main example_env ''/work'' example_args
               = (0, command_sequence example_env s (tempdir example_env))"
    by blast
  with example_UserSettings g
  have 1: "fst (main example_env ''/work'' example_args) = 0" by simp
  have v': "access_W_OK example_failing_env
              (os_path_dirname (realpath example_failing_env (arg_output example_args)))
     \<and> path_exists example_failing_env
         (atlas_vol_path example_failing_env ''/work'' (use_ciftify_global (arg_subject example_args))
            (get_subject (arg_subject example_args)))
     \<and> path_exists example_failing_env
         (surf_roi_path example_failing_env (use_ciftify_global (arg_subject example_args))
            (get_surf_dir example_failing_env ''/work'' (use_ciftify_global (arg_subject example_args))
               (get_subject (arg_subject example_args)))
            (get_subject (arg_subject example_args)) ''L'')
     \<and> path_exists example_failing_env
         (surf_roi_path example_failing_env (use_ciftify_global (arg_subject example_args))
            (get_surf_dir example_failing_env ''/work'' (use_ciftify_global (arg_subject example_args))
               (get_subject (arg_subject example_args)))
            (get_subject (arg_subject example_args)) ''R'')
     \<and> isfile example_failing_env (volume_or_default (arg_surface_vol example_args) example_args)
     \<and> volume_or_default (arg_surface_vol example_args) example_args \<noteq> []
     \<and> isfile example_failing_env (volume_or_default (arg_subcortical_vol example_args) example_args)
     \<and> (arg_resample_nifti example_args
         \<or> voxel_spacing example_failing_env
              (volume_or_default (arg_subcortical_vol example_args) example_args)
            = voxel_spacing example_failing_env
                (atlas_vol_path example_failing_env ''/work''
                   (use_ciftify_global (arg_subject example_args))
                   (get_subject (arg_subject example_args))))"
    by code_simp
  have b: "\<not> list_all (\<lambda>c. wb_returncode example_failing_env c = 0)
             (command_sequence example_failing_env example_settings (tempdir example_failing_env))"
    by code_simp
  from C8_exit_status [where env = example_failing_env and wd = "''/work''" and args = example_args] v'
  obtain s' where "UserSettings example_failing_env ''/work'' example_args = Inr s'"
    and "\<not> list_all (\<lambda>c. wb_returncode example_failing_env c = 0)
           (command_sequence example_failing_env s' (tempdir example_failing_env))
         \<longrightarrow> fst (main example_failing_env ''/work'' example_args) = 1"
    by blast
  with example_failing_UserSettings b
  have 2: "fst (main example_failing_env ''/work'' example_args) = 1" by simp
  have n: "\<not> access_W_OK example_env
              (os_path_dirname (realpath example_env
                 (arg_output (example_args\<lparr>arg_output := ''/nowhere/map''\<rparr>))))"
    by code_simp
  from C8_exit_status [where env = example_env and wd = "''/work''"
         and args = "example_args\<lparr>arg_output := ''/nowhere/map''\<rparr>"] n
  have 3: "main example_env ''/work'' (example_args\<lparr>arg_output := ''/nowhere/map''\<rparr>) = (1, [])"
    by blast
  from 1 2 3 show ?thesis by blast
qed

text \<open>
  C9. For the subject \<^verbatim>\<open>HCP_S1200_GroupAvg\<close> the settings hold the subject \<^verbatim>\<open>S1200\<close>
  and the mesh suffix \<^verbatim>\<open>_MSMAll.32k_fs_LR\<close> whatever the MSMAll flag; for every other
  subject the suffix is \<^verbatim>\<open>_MSMAll.32k_fs_LR\<close> exactly when the flag is set and
  \<^verbatim>\<open>.32k_fs_LR\<close> otherwise.
\<close>

theorem C9_subject_and_mesh_suffix:
  "get_subject ''HCP_S1200_GroupAvg'' = ''S1200''
   \<and> get_surface_mesh (use_ciftify_global ''HCP_S1200_GroupAvg'') use_MSMall = ''_MSMAll.32k_fs_LR''
   \<and> (subj \<noteq> ''HCP_S1200_GroupAvg'' \<longrightarrow>
        get_surface_mesh (use_ciftify_global subj) use_MSMall
          = (if use_MSMall then ''_MSMAll.32k_fs_LR'' else ''.32k_fs_LR''))
   \<and> (UserSettings env wd args = Inr s \<longrightarrow>
        (arg_subject args = ''HCP_S1200_GroupAvg'' \<longrightarrow>
           subject s = ''S1200'' \<and> surf_mesh s = ''_MSMAll.32k_fs_LR'')
      \<and> (arg_subject args \<noteq> ''HCP_S1200_GroupAvg'' \<longrightarrow>
           surf_mesh s = (if arg_HCP_MSMAll args then ''_MSMAll.32k_fs_LR'' else ''.32k_fs_LR'')))"
proof -
  have a: "get_subject ''HCP_S1200_GroupAvg'' = ''S1200''"
    by (simp add: get_subject_def)
  have b: "get_surface_mesh (use_ciftify_global ''HCP_S1200_GroupAvg'') use_MSMall = ''_MSMAll.32k_fs_LR''"
    by (simp add: get_surface_mesh_def use_ciftify_global_def)
  have c: "subj \<noteq> ''HCP_S1200_GroupAvg'' \<longrightarrow>
        get_surface_mesh (use_ciftify_global subj) use_MSMall
          = (if use_MSMall then ''_MSMAll.32k_fs_LR'' else ''.32k_fs_LR'')" for subj
    by (simp add: get_surface_mesh_def use_ciftify_global_def)
  have d: "UserSettings env wd args = Inr s \<longrightarrow>
        (arg_subject args = ''HCP_S1200_GroupAvg'' \<longrightarrow>
           subject s = ''S1200'' \<and> surf_mesh s = ''_MSMAll.32k_fs_LR'')
      \<and> (arg_subject args \<noteq> ''HCP_S1200_GroupAvg'' \<longrightarrow>
           surf_mesh s = (if arg_HCP_MSMAll args then ''_MSMAll.32k_fs_LR'' else ''.32k_fs_LR''))"
  proof
    assume u: "UserSettings env wd args = Inr s"
    from UserSettings_Inr(7,9) [OF u] a b c [of "arg_subject args"]
    show "(arg_subject args = ''HCP_S1200_GroupAvg'' \<longrightarrow>
           subject s = ''S1200'' \<and> surf_mesh s = ''_MSMAll.32k_fs_LR'')
      \<and> (arg_subject args \<noteq> ''HCP_S1200_GroupAvg'' \<longrightarrow>
           surf_mesh s = (if arg_HCP_MSMAll args then ''_MSMAll.32k_fs_LR'' else ''.32k_fs_LR''))"
      by (simp add: get_surface_mesh_def use_ciftify_global_def get_subject_def)
  qed
  from a b c d show ?thesis by blast
qed

theorem C9_witness:
  "subject example_group_settings = ''S1200''
   \<and> surf_mesh example_group_settings = ''_MSMAll.32k_fs_LR''
   \<and> surf_mesh example_settings = ''.32k_fs_LR''
   \<and> get_surface_mesh (use_ciftify_global ''sub01'') True = ''_MSMAll.32k_fs_LR''"
proof -
  have n: "''sub01'' \<noteq> ''HCP_S1200_GroupAvg''" by simp
  have g: "arg_subject (example_args\<lparr>arg_subject := ''HCP_S1200_GroupAvg''\<rparr>) = ''HCP_S1200_GroupAvg''"
    by simp
  have p: "arg_subject example_args \<noteq> ''HCP_S1200_GroupAvg'' \<and> \<not> arg_HCP_MSMAll example_args"
    by (simp add: example_args_def)
  from C9_subject_and_mesh_suffix [where env = example_env and wd = "''/work''"
         and args = "example_args\<lparr>arg_subject := ''HCP_S1200_GroupAvg''\<rparr>"
         and s = example_group_settings and subj = "''sub01''" and use_MSMall = True]
       example_group_UserSettings g n
  have 1: "subject example_group_settings = ''S1200''
           \<and> surf_mesh example_group_settings = ''_MSMAll.32k_fs_LR''
           \<and> get_surface_mesh (use_ciftify_global ''sub01'') True = ''_MSMAll.32k_fs_LR''"
    by simp
  from C9_subject_and_mesh_suffix [where env = example_env and wd = "''/work''"
         and args = example_args and s = example_settings]
       example_UserSettings p
  have 2: "surf_mesh example_settings = ''.32k_fs_LR''"
    by simp
  from 1 2 show ?thesis by blast
qed

text \<open>
  C10. A resample command is started only when the resample flag is set; it reads the
  subcortical input, uses \<^verbatim>\<open>ENCLOSING_VOXEL\<close> when the integer-labels flag is set and
  \<^verbatim>\<open>CUBIC\<close> otherwise, and writes \<^verbatim>\<open>input_nii_r.nii.gz\<close> in the temporary directory. The
  dense-CIFTI creation takes that file as its volume when the flag is set and the
  subcortical input itself when it is unset. In a run that no command ends early, the
  resample command is the third and the dense creation the fourth command when the flag
  is set, and the dense creation is the third when it is unset.
\<close>

theorem C10_resample_feeds_dense:
  "(\<forall>c\<in>set (trace (run_ciftify_vol_result env s tmpdir)).
      (c ! 1 = ''-volume-affine-resample'' \<longrightarrow>
         resample s
       \<and> c ! 2 = subcortical_nii s
       \<and> (integer_labels s \<longrightarrow> c ! 5 = ''ENCLOSING_VOXEL'')
       \<and> (\<not> integer_labels s \<longrightarrow> c ! 5 = ''CUBIC'')
       \<and> c ! 6 = os_path_join tmpdir [''input_nii_r.nii.gz''])
    \<and> (c ! 1 = ''-cifti-create-dense-timeseries'' \<or> c ! 1 = ''-cifti-create-dense-scalar'' \<longrightarrow>
         c ! 3 = ''-volume''
       \<and> (resample s \<longrightarrow> c ! 4 = os_path_join tmpdir [''input_nii_r.nii.gz''])
       \<and> (\<not> resample s \<longrightarrow> c ! 4 = subcortical_nii s)))
   \<and> (exited (run_ciftify_vol_result env s tmpdir) = None \<longrightarrow>
        (resample s \<longrightarrow>
           trace (run_ciftify_vol_result env s tmpdir) ! 2 ! 1 = ''-volume-affine-resample''
         \<and> trace (run_ciftify_vol_result env s tmpdir) ! 3 = dense_cmd s tmpdir)
      \<and> (\<not> resample s \<longrightarrow>
           trace (run_ciftify_vol_result env s tmpdir) ! 2 = dense_cmd s tmpdir)
      \<and> (dense_cmd s tmpdir ! 1 = ''-cifti-create-dense-timeseries''
           \<or> dense_cmd s tmpdir ! 1 = ''-cifti-create-dense-scalar''))"
proof -
  have a: "resample s
       \<and> c ! 2 = subcortical_nii s
       \<and> (integer_labels s \<longrightarrow> c ! 5 = ''ENCLOSING_VOXEL'')
       \<and> (\<not> integer_labels s \<longrightarrow> c ! 5 = ''CUBIC'')
       \<and> c ! 6 = os_path_join tmpdir [''input_nii_r.nii.gz'']"
    if "c \<in> set (trace (run_ciftify_vol_result env s tmpdir))"
      and "c ! 1 = ''-volume-affine-resample''" for c
    using resample_in_trace [OF that] by (simp add: resample_cmd_def resample_method_def)
  have b: "c ! 3 = ''-volume''
       \<and> (resample s \<longrightarrow> c ! 4 = os_path_join tmpdir [''input_nii_r.nii.gz''])
       \<and> (\<not> resample s \<longrightarrow> c ! 4 = subcortical_nii s)"
    if "c \<in> set (trace (run_ciftify_vol_result env s tmpdir))"
      and "c ! 1 = ''-cifti-create-dense-timeseries'' \<or> c ! 1 = ''-cifti-create-dense-scalar''" for c
    using dense_in_trace [OF that] by (simp add: dense_cmd_def rinput_subcortical_def)
  have c: "(resample s \<longrightarrow>
           trace (run_ciftify_vol_result env s tmpdir) ! 2 ! 1 = ''-volume-affine-resample''
         \<and> trace (run_ciftify_vol_result env s tmpdir) ! 3 = dense_cmd s tmpdir)
      \<and> (\<not> resample s \<longrightarrow>
           trace (run_ciftify_vol_result env s tmpdir) ! 2 = dense_cmd s tmpdir)"
    if "exited (run_ciftify_vol_result env s tmpdir) = None"
    using trace_positions(3,4,5) [OF that] by (simp add: resample_cmd_def)
  have d: "dense_cmd s tmpdir ! 1 = ''-cifti-create-dense-timeseries''
           \<or> dense_cmd s tmpdir ! 1 = ''-cifti-create-dense-scalar''"
    by (simp add: dense_cmd_def wb_subcommand_def)
  from a b c d show ?thesis by blast
qed

theorem C10_witness:
  "trace (run_ciftify_vol_result example_env example_labels_settings ''/tmp/t'') ! 2 ! 5
     = ''ENCLOSING_VOXEL''
   \<and> trace (run_ciftify_vol_result example_env example_labels_settings ''/tmp/t'') ! 3 ! 4
     = os_path_join ''/tmp/t'' [''input_nii_r.nii.gz'']"
proof -
  let ?R = "run_ciftify_vol_result example_env example_labels_settings ''/tmp/t''"
  note c10 = C10_resample_feeds_dense [of example_env example_labels_settings "''/tmp/t''"]
  have f: "integer_labels example_labels_settings" "resample example_labels_settings"
    by (simp_all add: example_labels_settings_def)
  have m: "trace ?R ! 2 \<in> set (trace ?R)" "trace ?R ! 3 \<in> set (trace ?R)"
    by code_simp+
  from c10 example_labels_run f(2)
  have k: "trace ?R ! 2 ! 1 = ''-volume-affine-resample''"
          "trace ?R ! 3 = dense_cmd example_labels_settings ''/tmp/t''"
    by blast+
  from c10 example_labels_run
  have d: "dense_cmd example_labels_settings ''/tmp/t'' ! 1 = ''-cifti-create-dense-timeseries''
           \<or> dense_cmd example_labels_settings ''/tmp/t'' ! 1 = ''-cifti-create-dense-scalar''"
    by blast
  from c10 m(1) k(1) f(1) have 1: "trace ?R ! 2 ! 5 = ''ENCLOSING_VOXEL''" by blast
  from d k(2)
  have d': "trace ?R ! 3 ! 1 = ''-cifti-create-dense-timeseries''
           \<or> trace ?R ! 3 ! 1 = ''-cifti-create-dense-scalar''"
    by simp
  from c10 m(2) d' f(2)
  have 2: "trace ?R ! 3 ! 4 = os_path_join ''/tmp/t'' [''input_nii_r.nii.gz'']" by blast
  from 1 2 show ?thesis by blast
qed

end
